theory Spec2Isabelle
  imports Complex_Main "HOL-Library.Sublist"
begin

section \<open>Python values and exceptions\<close>

text \<open>
  Every value that flows through \<^verbatim>\<open>devops_agent.py\<close> is either text or a value read from
  JSON (the configuration file, an HTTP response body) or built from such values. One
  datatype covers them. A dictionary keeps its insertion order, as Python's does, so it is
  an association list. Finite floats are rationals; NaN and the infinities, which a strict
  JSON document cannot contain, are left out.

  A Python \<^verbatim>\<open>str\<close> is a \<open>string\<close> whose characters stand for the code points below 256.
\<close>

datatype json =
    JNull
  | JBool bool
  | JInt int
  | JFloat rat
  | JStr string
  | JArr "json list"
  | JObj "(string \<times> json) list"

text \<open>An exception is its class name together with \<^verbatim>\<open>str(e)\<close>.\<close>

datatype exn = Exn (exc_class: string) (exc_str: string)

text \<open>Truth value testing (\<^verbatim>\<open>if x:\<close>, \<^verbatim>\<open>not x\<close>).\<close>

fun truthy :: "json \<Rightarrow> bool" where
  "truthy JNull = False"
| "truthy (JBool b) = b"
| "truthy (JInt i) = (i \<noteq> 0)"
| "truthy (JFloat q) = (q \<noteq> 0)"
| "truthy (JStr s) = (s \<noteq> [])"
| "truthy (JArr xs) = (xs \<noteq> [])"
| "truthy (JObj kvs) = (kvs \<noteq> [])"

fun type_name :: "json \<Rightarrow> string" where
  "type_name JNull = ''NoneType''"
| "type_name (JBool b) = ''bool''"
| "type_name (JInt i) = ''int''"
| "type_name (JFloat q) = ''float''"
| "type_name (JStr s) = ''str''"
| "type_name (JArr xs) = ''list''"
| "type_name (JObj kvs) = ''dict''"

definition quote :: "string \<Rightarrow> string" where
  "quote s = CHR 0x27 # s @ [CHR 0x27]"

definition nl :: string where
  "nl = [CHR 0x0A]"

definition not_subscriptable :: "json \<Rightarrow> exn" where
  "not_subscriptable v = Exn ''TypeError'' (quote (type_name v) @ '' object is not subscriptable'')"

text \<open>
  \<^verbatim>\<open>v[k]\<close> with a string key \<open>k\<close>. \<^verbatim>\<open>str(KeyError(k))\<close> is \<^verbatim>\<open>repr(k)\<close>, which for the
  keys this program uses (plain identifiers) is the key between single quotes.
\<close>

fun py_getitem :: "json \<Rightarrow> string \<Rightarrow> exn + json" where
  "py_getitem (JObj kvs) k =
     (case map_of kvs k of
        Some v \<Rightarrow> Inr v
      | None \<Rightarrow> Inl (Exn ''KeyError'' (quote k)))"
| "py_getitem (JArr xs) k =
     Inl (Exn ''TypeError'' ''list indices must be integers or slices, not str'')"
| "py_getitem (JStr s) k =
     Inl (Exn ''TypeError'' (''string indices must be integers, not '' @ quote ''str''))"
| "py_getitem v k = Inl (not_subscriptable v)"

text \<open>\<^verbatim>\<open>v[0]\<close>. A dictionary read from JSON has string keys only, so the key 0 is missing.\<close>

fun py_first :: "json \<Rightarrow> exn + json" where
  "py_first (JArr []) = Inl (Exn ''IndexError'' ''list index out of range'')"
| "py_first (JArr (x # xs)) = Inr x"
| "py_first (JStr []) = Inl (Exn ''IndexError'' ''string index out of range'')"
| "py_first (JStr (c # cs)) = Inr (JStr [c])"
| "py_first (JObj kvs) = Inl (Exn ''KeyError'' ''0'')"
| "py_first v = Inl (not_subscriptable v)"

text \<open>\<^verbatim>\<open>v.get(k, default)\<close>: only a dictionary has the method.\<close>

fun py_get :: "json \<Rightarrow> string \<Rightarrow> json \<Rightarrow> exn + json" where
  "py_get (JObj kvs) k d = Inr (case map_of kvs k of Some v \<Rightarrow> v | None \<Rightarrow> d)"
| "py_get v k d =
     Inl (Exn ''AttributeError''
            (quote (type_name v) @ '' object has no attribute '' @ quote ''get''))"

text \<open>\<^verbatim>\<open>for x in v\<close>: the items of a list, the keys of a dictionary, the characters of a string.\<close>

fun py_iter :: "json \<Rightarrow> exn + json list" where
  "py_iter (JArr xs) = Inr xs"
| "py_iter (JObj kvs) = Inr (map (\<lambda>kv. JStr (fst kv)) kvs)"
| "py_iter (JStr s) = Inr (map (\<lambda>c. JStr [c]) s)"
| "py_iter v = Inl (Exn ''TypeError'' (quote (type_name v) @ '' object is not iterable''))"

section \<open>Strings and numbers\<close>

text \<open>\<^verbatim>\<open>str.isspace\<close>, \<^verbatim>\<open>str.strip\<close> and \<^verbatim>\<open>str.isdigit\<close> on the code points below 256.\<close>

definition isspace_char :: "char \<Rightarrow> bool" where
  "isspace_char c = ((of_char c :: nat) \<in> {9, 10, 11, 12, 13, 28, 29, 30, 31, 32, 133, 160})"

definition strip :: "string \<Rightarrow> string" where
  "strip s = rev (dropWhile isspace_char (rev (dropWhile isspace_char s)))"

definition isdecimal_char :: "char \<Rightarrow> bool" where
  "isdecimal_char c = (48 \<le> (of_char c :: nat) \<and> (of_char c :: nat) \<le> 57)"

text \<open>
  Besides the decimal digits, \<^verbatim>\<open>isdigit\<close> accepts the superscript digits U+00B2, U+00B3
  and U+00B9, which \<^verbatim>\<open>int()\<close> rejects.
\<close>

definition isdigit_char :: "char \<Rightarrow> bool" where
  "isdigit_char c = (isdecimal_char c \<or> (of_char c :: nat) \<in> {178, 179, 185})"

definition isdigit :: "string \<Rightarrow> bool" where
  "isdigit s = (s \<noteq> [] \<and> list_all isdigit_char s)"

definition digit_value :: "char \<Rightarrow> int" where
  "digit_value c = int (of_char c) - 48"

text \<open>
  \<^verbatim>\<open>int(s)\<close> for a string that passed \<^verbatim>\<open>isdigit\<close> (no sign, blank or underscore left):
  the decimal value, or a ValueError when a character is not a decimal digit. The
  interpreter's optional limit on the number of digits is not modelled.
\<close>

definition py_int :: "string \<Rightarrow> exn + int" where
  "py_int s =
     (if s \<noteq> [] \<and> list_all isdecimal_char s
      then Inr (foldl (\<lambda>a c. 10 * a + digit_value c) 0 s)
      else Inl (Exn ''ValueError'' (''invalid literal for int() with base 10: '' @ quote s)))"

text \<open>\<^verbatim>\<open>str(n)\<close> of an integer, as an f-string renders it.\<close>

definition digit_char :: "nat \<Rightarrow> char" where
  "digit_char d = ''0123456789'' ! d"

fun str_nat :: "nat \<Rightarrow> string" where
  "str_nat n = (if n < 10 then [digit_char n] else str_nat (n div 10) @ [digit_char (n mod 10)])"

declare str_nat.simps [simp del]

definition str_int :: "int \<Rightarrow> string" where
  "str_int i = (if i < 0 then CHR ''-'' # str_nat (nat (- i)) else str_nat (nat i))"

section \<open>The environment and the state of a run\<close>

text \<open>
  What the program cannot decide itself is a parameter: the remote server (its answer may
  depend on the requests sent before), the JSON library (\<^verbatim>\<open>json.load\<close> and
  \<^verbatim>\<open>json.dump(..., indent=2)\<close> as functions on text), \<^verbatim>\<open>str()\<close> of a value that is not
  text, and the help text that \<^verbatim>\<open>argparse\<close> generates.
\<close>

record request =
  verb :: string
  url :: string
  headers :: "(string \<times> string) list"
  json_data :: "json option"
  timeout :: nat

text \<open>A response: its status code and what \<^verbatim>\<open>response.json()\<close> returns or raises.\<close>

record response =
  status_code :: int
  payload :: "exn + json"

record env =
  server :: "request list \<Rightarrow> request \<Rightarrow> exn + response"
  json_loads :: "string \<Rightarrow> exn + json"
  json_dumps :: "json \<Rightarrow> string"
  repr :: "json \<Rightarrow> string"
  help_text :: string

text \<open>
  A path names a directory, a readable file with its text, or something that exists but
  whose opening for reading raises.
\<close>

datatype fsnode = Dir | File string | Unreadable exn

text \<open>
  The state: the lines still to come on standard input (each as \<^verbatim>\<open>readline()\<close> would
  return it), what was written to standard output (one entry per \<^verbatim>\<open>print\<close>), the
  requests sent so far, and the files. The \<^verbatim>\<open>logger\<close> calls write to standard error and
  are not part of the state.
\<close>

record world =
  stdin :: "string list"
  stdout :: "string list"
  net_log :: "request list"
  fs :: "string \<rightharpoonup> fsnode"

text \<open>A call returns a value, raises, or never returns.\<close>

datatype 'a outcome = Returns 'a world | Raises exn world | Diverges

definition CONFIG_DIR :: string where
  "CONFIG_DIR = ''~/.devops-ai-agent''"

definition CONFIG_FILE :: string where
  "CONFIG_FILE = ''~/.devops-ai-agent/config.json''"

definition py_print :: "string \<Rightarrow> world \<Rightarrow> world" where
  "py_print s w = w\<lparr>stdout := stdout w @ [s @ nl]\<rparr>"

text \<open>\<^verbatim>\<open>print(s, end='', flush=True)\<close>\<close>

definition py_prompt :: "string \<Rightarrow> world \<Rightarrow> world" where
  "py_prompt s w = w\<lparr>stdout := stdout w @ [s]\<rparr>"

text \<open>\<^verbatim>\<open>sys.stdin.readline()\<close>: the next line, or the empty string at end of input.\<close>

definition readline :: "world \<Rightarrow> string \<times> world" where
  "readline w = (case stdin w of [] \<Rightarrow> ([], w) | l # ls \<Rightarrow> (l, w\<lparr>stdin := ls\<rparr>))"

text \<open>\<^verbatim>\<open>requests.get\<close> and \<^verbatim>\<open>requests.post\<close>: the request is recorded, the server answers.\<close>

definition http :: "env \<Rightarrow> request \<Rightarrow> world \<Rightarrow> (exn + response) \<times> world" where
  "http E r w = (server E (net_log w) r, w\<lparr>net_log := net_log w @ [r]\<rparr>)"

text \<open>The value inside an f-string.\<close>

fun py_str :: "env \<Rightarrow> json \<Rightarrow> string" where
  "py_str E (JStr s) = s"
| "py_str E (JInt i) = str_int i"
| "py_str E v = repr E v"

definition auth_headers :: "env \<Rightarrow> json \<Rightarrow> (string \<times> string) list" where
  "auth_headers E api_key =
     [(''Authorization'', ''Bearer '' @ py_str E api_key),
      (''Content-Type'', ''application/json'')]"

section \<open>Key validation and the model directory\<close>

definition auth_key_request :: "env \<Rightarrow> json \<Rightarrow> request" where
  "auth_key_request E api_key =
     \<lparr>verb = ''GET'', url = ''https://openrouter.ai/api/v1/auth/key'',
      headers = auth_headers E api_key, json_data = None, timeout = 10\<rparr>"

definition validate_openrouter_api_key :: "env \<Rightarrow> json \<Rightarrow> world \<Rightarrow> bool \<times> world" where
  "validate_openrouter_api_key E api_key w =
     (if \<not> truthy api_key then (False, w)
      else
        (case http E (auth_key_request E api_key) w of
           (Inr response, w') \<Rightarrow> (status_code response = 200, w')
         | (Inl e, w') \<Rightarrow> (False, w')))"

text \<open>The list that \<^verbatim>\<open>get_available_models\<close> spells out three times, identically.\<close>

definition fallback_models :: "json list" where
  "fallback_models =
     [JStr ''anthropic/claude-3-opus'',
      JStr ''anthropic/claude-3-sonnet'',
      JStr ''anthropic/claude-3-haiku'',
      JStr ''google/gemini-pro'',
      JStr ''google/gemini-1.5-pro'',
      JStr ''openai/gpt-4o'',
      JStr ''openai/gpt-4-turbo'',
      JStr ''openai/gpt-3.5-turbo'',
      JStr ''meta/llama-3-70b-instruct'',
      JStr ''mistralai/mixtral-8x7b'',
      JStr ''mistralai/mistral-7b-instruct'']"

definition models_request :: "env \<Rightarrow> json \<Rightarrow> request" where
  "models_request E api_key =
     \<lparr>verb = ''GET'', url = ''https://openrouter.ai/api/v1/models'',
      headers = auth_headers E api_key, json_data = None, timeout = 10\<rparr>"

text \<open>The loop over the entries: \<^verbatim>\<open>model.get('id')\<close>, appended when it is true.\<close>

fun models_loop :: "json list \<Rightarrow> json list \<Rightarrow> exn + json list" where
  "models_loop [] available_models = Inr available_models"
| "models_loop (model # rest) available_models =
     (case py_get model ''id'' JNull of
        Inl e \<Rightarrow> Inl e
      | Inr model_id \<Rightarrow>
          models_loop rest
            (if truthy model_id then available_models @ [model_id] else available_models))"

text \<open>The body of the branch for status 200, up to the list of identifiers.\<close>

definition available_models_of :: "response \<Rightarrow> exn + json list" where
  "available_models_of response =
     (case payload response of
        Inl e \<Rightarrow> Inl e
      | Inr models_data \<Rightarrow>
          (case py_get models_data ''data'' (JArr []) of
             Inl e \<Rightarrow> Inl e
           | Inr data \<Rightarrow>
               (case py_iter data of
                  Inl e \<Rightarrow> Inl e
                | Inr entries \<Rightarrow> models_loop entries [])))"

definition get_available_models :: "env \<Rightarrow> json \<Rightarrow> world \<Rightarrow> json list \<times> world" where
  "get_available_models E api_key w =
     (case http E (models_request E api_key) w of
        (Inl e, w') \<Rightarrow> (fallback_models, w')
      | (Inr response, w') \<Rightarrow>
          if status_code response = 200 then
            (case available_models_of response of
               Inl e \<Rightarrow> (fallback_models, w')
             | Inr available_models \<Rightarrow>
                 if available_models = [] then (fallback_models, w')
                 else (available_models, w'))
          else (fallback_models, w'))"

section \<open>Chat requests\<close>

definition unlines :: "string list \<Rightarrow> string" where
  "unlines ls = concat (map (\<lambda>l. l @ nl) ls)"

definition analyze_prompt :: "string \<Rightarrow> string" where
  "analyze_prompt error_text =
     unlines
       [''You are a DevOps AI assistant. Analyze this error and provide a solution:'',
        [],
        ''```'',
        error_text,
        ''```'',
        [],
        ''Please explain:'',
        ''1. What is causing this error'',
        ''2. How to fix it'',
        ''3. Any preventive measures for the future'',
        [],
        ''Format your response in markdown with clear steps.'']"

definition install_prompt :: "string \<Rightarrow> string" where
  "install_prompt tool_name =
     unlines
       [''You are a DevOps AI assistant. Provide detailed installation instructions for ''
          @ tool_name @ ''.'',
        [],
        ''Include:'',
        ''1. Prerequisites'',
        ''2. Step-by-step installation process'',
        ''3. Basic configuration'',
        ''4. How to verify the installation'',
        ''5. Common issues and troubleshooting'',
        [],
        ''Format your response in markdown with clear steps that can be executed in a terminal.'']"

definition chat_request :: "env \<Rightarrow> json \<Rightarrow> json \<Rightarrow> string \<Rightarrow> request" where
  "chat_request E api_key model prompt =
     \<lparr>verb = ''POST'', url = ''https://openrouter.ai/api/v1/chat/completions'',
      headers = auth_headers E api_key,
      json_data =
        Some (JObj [(''model'', model),
                    (''messages'',
                       JArr [JObj [(''role'', JStr ''user''), (''content'', JStr prompt)]])]),
      timeout = 30\<rparr>"

text \<open>\<^verbatim>\<open>result['choices'][0]['message']['content']\<close>\<close>

definition first_choice_content :: "json \<Rightarrow> exn + json" where
  "first_choice_content result =
     (case py_getitem result ''choices'' of
        Inl e \<Rightarrow> Inl e
      | Inr choices \<Rightarrow>
          (case py_first choices of
             Inl e \<Rightarrow> Inl e
           | Inr choice \<Rightarrow>
               (case py_getitem choice ''message'' of
                  Inl e \<Rightarrow> Inl e
                | Inr message \<Rightarrow> py_getitem message ''content'')))"

text \<open>
  The \<^verbatim>\<open>try\<close> block that \<^verbatim>\<open>analyze_error\<close> and \<^verbatim>\<open>install_tool\<close> share word for word:
  it ends with the message content (status 200), with the status code (any other
  status), or with an exception.
\<close>

datatype reply = Content json | Status int

definition chat_try :: "env \<Rightarrow> json \<Rightarrow> string \<Rightarrow> world \<Rightarrow> (exn + reply) \<times> world" where
  "chat_try E config prompt w =
     (case py_getitem config ''api_key'' of
        Inl e \<Rightarrow> (Inl e, w)
      | Inr api_key \<Rightarrow>
          (case py_getitem config ''model'' of
             Inl e \<Rightarrow> (Inl e, w)
           | Inr model \<Rightarrow>
               (case http E (chat_request E api_key model prompt) w of
                  (Inl e, w') \<Rightarrow> (Inl e, w')
                | (Inr response, w') \<Rightarrow>
                    if status_code response = 200 then
                      (case payload response of
                         Inl e \<Rightarrow> (Inl e, w')
                       | Inr result \<Rightarrow>
                           (case first_choice_content result of
                              Inl e \<Rightarrow> (Inl e, w')
                            | Inr assistant_message \<Rightarrow> (Inr (Content assistant_message), w')))
                    else (Inr (Status (status_code response)), w'))))"

definition analyze_error :: "env \<Rightarrow> json \<Rightarrow> string \<Rightarrow> world \<Rightarrow> json \<times> world" where
  "analyze_error E config error_text w =
     (case chat_try E config (analyze_prompt error_text) w of
        (Inr (Content assistant_message), w') \<Rightarrow> (assistant_message, w')
      | (Inr (Status code), w') \<Rightarrow>
          (JStr (''Error: Could not analyze the error. API responded with ''
                   @ str_int code @ ''.''), w')
      | (Inl e, w') \<Rightarrow>
          (JStr (''Error: Could not analyze the error due to an API issue: '' @ exc_str e), w'))"

definition install_tool :: "env \<Rightarrow> json \<Rightarrow> string \<Rightarrow> world \<Rightarrow> json \<times> world" where
  "install_tool E config tool_name w =
     (case chat_try E config (install_prompt tool_name) w of
        (Inr (Content assistant_message), w') \<Rightarrow> (assistant_message, w')
      | (Inr (Status code), w') \<Rightarrow>
          (JStr (''Error: Could not get installation instructions. API responded with ''
                   @ str_int code @ ''.''), w')
      | (Inl e, w') \<Rightarrow>
          (JStr (''Error: Could not get installation instructions due to an API issue: ''
                   @ exc_str e), w'))"

section \<open>The setup wizard\<close>

text \<open>One round of a prompt loop either leaves the loop with a value or goes round again.\<close>

datatype 'a step = Done 'a world | Again world

text \<open>
  One round of the loop for the API key. \<^verbatim>\<open>readline\<close>, \<^verbatim>\<open>strip\<close> and \<^verbatim>\<open>print\<close> are taken
  not to raise, and the validation catches its own exceptions, so the handler of the
  loop body is never entered.
\<close>

definition api_key_step :: "env \<Rightarrow> world \<Rightarrow> string step" where
  "api_key_step E w =
     (let w1 = py_prompt (nl @ ''Enter your OpenRouter API key: '') w;
          (line, w2) = readline w1;
          api_key = strip line;
          w3 = py_print ''Validating API key...'' w2;
          (valid, w4) = validate_openrouter_api_key E (JStr api_key) w3
      in if valid then Done api_key (py_print ''API key validation successful!'' w4)
         else Again (py_print ''Invalid API key. Please try again.'' w4))"

lemma stdin_validate:
  "stdin (snd (validate_openrouter_api_key E k w)) = stdin w"
  by (simp add: validate_openrouter_api_key_def http_def split: sum.splits)

lemma api_key_step_stdin:
  assumes "api_key_step E w = Again w'"
  shows "stdin w' = tl (stdin w)"
proof -
  obtain line w2 where r: "readline (py_prompt (nl @ ''Enter your OpenRouter API key: '') w) = (line, w2)"
    by (cases "readline (py_prompt (nl @ ''Enter your OpenRouter API key: '') w)")
  have s2: "stdin w2 = tl (stdin w)"
    using r by (auto simp: readline_def py_prompt_def split: list.splits)
  obtain valid w4 where
    v: "validate_openrouter_api_key E (JStr (strip line)) (py_print ''Validating API key...'' w2) = (valid, w4)"
    by (cases "validate_openrouter_api_key E (JStr (strip line)) (py_print ''Validating API key...'' w2)")
  have "stdin w4 = stdin (py_print ''Validating API key...'' w2)"
    using stdin_validate [of E "JStr (strip line)" "py_print ''Validating API key...'' w2"] v
    by simp
  then have s4: "stdin w4 = tl (stdin w)"
    using s2 by (simp add: py_print_def)
  from assms r v have "w' = py_print ''Invalid API key. Please try again.'' w4"
    by (simp add: api_key_step_def Let_def split: if_splits)
  then show ?thesis
    using s4 by (simp add: py_print_def)
qed

text \<open>
  The loop for the API key. Once standard input is at its end, every round reads the
  empty string, which the validation rejects without a request, and input stays at its
  end (lemma \<open>api_key_step_at_eof\<close> below): the loop never ends.
\<close>

function api_key_loop :: "env \<Rightarrow> world \<Rightarrow> string outcome" where
  "api_key_loop E w =
     (if stdin w = [] then Diverges
      else
        (case api_key_step E w of
           Done api_key w' \<Rightarrow> Returns api_key w'
         | Again w' \<Rightarrow> api_key_loop E w'))"
  by pat_completeness auto
termination
proof (relation "measure (\<lambda>(E, w). length (stdin w))")
  show "wf (measure (\<lambda>(E, w). length (stdin w)))"
    by simp
next
  fix E :: env and w w' :: world
  assume "stdin w \<noteq> []" and "api_key_step E w = Again w'"
  then show "((E, w'), (E, w)) \<in> measure (\<lambda>(E, w). length (stdin w))"
    using api_key_step_stdin [of E w w'] by (cases "stdin w") simp_all
qed

declare api_key_loop.simps [simp del]

text \<open>
  One round of the loop for the model. \<^verbatim>\<open>int()\<close> is the one call of the body that can
  raise, and what it raises is the ValueError that the loop catches.
\<close>

definition model_step :: "env \<Rightarrow> json list \<Rightarrow> world \<Rightarrow> json step" where
  "model_step E models w =
     (let w1 = py_prompt (nl @ ''Select a model (number) or enter a custom model ID: '') w;
          (line, w2) = readline w1;
          choice_input = strip line
      in if isdigit choice_input then
           (case py_int choice_input of
              Inr choice \<Rightarrow>
                if 1 \<le> choice \<and> choice \<le> int (length models) then
                  Done (models ! nat (choice - 1))
                    (py_print (''Selected model: '' @ py_str E (models ! nat (choice - 1))) w2)
                else
                  Again (py_print (''Please enter a number between 1 and ''
                                     @ str_int (int (length models)) @ ''.'') w2)
            | Inl e \<Rightarrow> Again (py_print ''Please enter a valid number or model ID.'' w2))
         else Done (JStr choice_input) (py_print (''Using custom model: '' @ choice_input) w2))"

lemma model_step_stdin:
  assumes "model_step E models w = Again w'"
  shows "stdin w \<noteq> [] \<and> stdin w' = tl (stdin w)"
proof -
  obtain line w2 where
    r: "readline (py_prompt (nl @ ''Select a model (number) or enter a custom model ID: '') w) = (line, w2)"
    by (cases "readline (py_prompt (nl @ ''Select a model (number) or enter a custom model ID: '') w)")
  have s2: "stdin w2 = tl (stdin w)" and l: "stdin w = [] \<Longrightarrow> line = []"
    using r by (auto simp: readline_def py_prompt_def split: list.splits)
  from assms r have d: "isdigit (strip line)"
    by (simp add: model_step_def Let_def split: if_splits)
  have "stdin w \<noteq> []"
  proof
    assume "stdin w = []"
    then have "line = []" by (rule l)
    with d show False by (simp add: strip_def isdigit_def)
  qed
  moreover from assms r d obtain s where "w' = py_print s w2"
    by (auto simp: model_step_def Let_def split: sum.splits if_splits)
  ultimately show ?thesis
    using s2 by (simp add: py_print_def)
qed

function model_loop :: "env \<Rightarrow> json list \<Rightarrow> world \<Rightarrow> json \<times> world" where
  "model_loop E models w =
     (case model_step E models w of
        Done model w' \<Rightarrow> (model, w')
      | Again w' \<Rightarrow> model_loop E models w')"
  by pat_completeness auto
termination
proof (relation "measure (\<lambda>(E, models, w). length (stdin w))")
  show "wf (measure (\<lambda>(E, models, w). length (stdin w)))"
    by simp
next
  fix E :: env and models :: "json list" and w w' :: world
  assume "model_step E models w = Again w'"
  then show "((E, models, w'), (E, models, w)) \<in> measure (\<lambda>(E, models, w). length (stdin w))"
    using model_step_stdin [of E models w w'] by (cases "stdin w") simp_all
qed

declare model_loop.simps [simp del]

text \<open>\<^verbatim>\<open>for i, model in enumerate(models, 1): print(f"{i}. {model}")\<close>\<close>

fun print_models :: "env \<Rightarrow> nat \<Rightarrow> json list \<Rightarrow> world \<Rightarrow> world" where
  "print_models E i [] w = w"
| "print_models E i (model # rest) w =
     print_models E (Suc i) rest (py_print (str_nat i @ ''. '' @ py_str E model) w)"

text \<open>
  Fetching the list, printing it and asking for a choice: the same lines in
  \<^verbatim>\<open>first_time_setup\<close> and in the \<^verbatim>\<open>setup\<close> branch of \<^verbatim>\<open>execute_command\<close>.
\<close>

definition select_model :: "env \<Rightarrow> json \<Rightarrow> world \<Rightarrow> json \<times> world" where
  "select_model E api_key w =
     (let w1 = py_print (nl @ ''Fetching available models...'') w;
          (models, w2) = get_available_models E api_key w1;
          w3 = py_print (nl @ ''Available Models:'') w2;
          w4 = print_models E 1 models w3
      in model_loop E models w4)"

definition default_error_monitoring :: json where
  "default_error_monitoring =
     JObj [(''enabled'', JBool True),
           (''scan_interval'', JInt 300),
           (''log_patterns'',
              JArr [JStr ''error:'', JStr ''exception'', JStr ''failure'',
                    JStr ''fatal'', JStr ''critical''])]"

definition make_config :: "json \<Rightarrow> json \<Rightarrow> json" where
  "make_config api_key model =
     JObj [(''api_key'', api_key), (''model'', model),
           (''error_monitoring'', default_error_monitoring)]"

text \<open>
  \<^verbatim>\<open>with open(CONFIG_FILE, 'w') as f: json.dump(config, f, indent=2)\<close>: the file is
  truncated and holds the serialised configuration afterwards. The write is taken to
  succeed.
\<close>

definition save_config :: "env \<Rightarrow> json \<Rightarrow> world \<Rightarrow> world" where
  "save_config E config w = w\<lparr>fs := (fs w)(CONFIG_FILE \<mapsto> File (json_dumps E config))\<rparr>"

definition finish_setup :: "env \<Rightarrow> json \<Rightarrow> world \<Rightarrow> world" where
  "finish_setup E config w =
     py_print (nl @ ''Setup completed successfully!'')
       (save_config E config (py_print (nl @ ''Saving configuration...'') w))"

definition first_time_setup :: "env \<Rightarrow> world \<Rightarrow> json outcome" where
  "first_time_setup E w =
     (let w1 = py_print (nl @ replicate 50 (CHR ''='')) w;
          w2 = py_print ''Welcome to DevOps AI Agent Setup!'' w1;
          w3 = py_print (replicate 50 (CHR ''='')) w2;
          w4 = py_print (nl @ ''You will now be prompted to enter your OpenRouter API key.'') w3
      in case api_key_loop E w4 of
           Returns api_key w5 \<Rightarrow>
             (let (model, w6) = select_model E (JStr api_key) w5;
                  config = make_config (JStr api_key) model
              in Returns config (finish_setup E config w6))
         | Raises e w5 \<Rightarrow> Raises e w5
         | Diverges \<Rightarrow> Diverges)"

section \<open>Loading the configuration\<close>

definition open_read :: "fsnode \<Rightarrow> exn + string" where
  "open_read node =
     (case node of
        File contents \<Rightarrow> Inr contents
      | Dir \<Rightarrow> Inl (Exn ''IsADirectoryError'' ''Is a directory'')
      | Unreadable e \<Rightarrow> Inl e)"

definition mkdir_config_dir :: "world \<Rightarrow> world" where
  "mkdir_config_dir w =
     (if fs w CONFIG_DIR = None then w\<lparr>fs := (fs w)(CONFIG_DIR \<mapsto> Dir)\<rparr> else w)"

definition load_config :: "env \<Rightarrow> world \<Rightarrow> json outcome" where
  "load_config E w =
     (let w1 = mkdir_config_dir w
      in case fs w1 CONFIG_FILE of
           None \<Rightarrow> first_time_setup E w1
         | Some node \<Rightarrow>
             (case open_read node of
                Inl e \<Rightarrow> first_time_setup E w1
              | Inr contents \<Rightarrow>
                  (case json_loads E contents of
                     Inl e \<Rightarrow> first_time_setup E w1
                   | Inr config \<Rightarrow> Returns config w1)))"

section \<open>Commands\<close>

text \<open>
  The monitoring placeholder. The two \<^verbatim>\<open>get\<close> calls for the interval and the patterns
  act on a dictionary and feed the logger only; what is left of the method is the check
  of the flag and the two printed lines.
\<close>

definition start_monitoring :: "json \<Rightarrow> world \<Rightarrow> unit outcome" where
  "start_monitoring config w =
     (case py_get config ''error_monitoring'' (JObj []) of
        Inl e \<Rightarrow> Raises e w
      | Inr monitoring_config \<Rightarrow>
          (case py_get monitoring_config ''enabled'' (JBool False) of
             Inl e \<Rightarrow> Raises e w
           | Inr enabled \<Rightarrow>
               if \<not> truthy enabled then Returns () w
               else
                 Returns ()
                   (py_print ''Use 'devops-agent analyze-logs <log_file>' to manually analyze logs.''
                      (py_print ''Error monitoring is now active in the background.'' w))))"

text \<open>The parsed command line: an option that was not given is \<open>None\<close>.\<close>

record args =
  arg_command :: "string option"
  arg_file :: "string option"
  arg_text :: "string option"
  arg_tool :: "string option"
  arg_api_key :: "string option"
  arg_model :: "string option"

definition given :: "string option \<Rightarrow> bool" where
  "given a = (case a of None \<Rightarrow> False | Some s \<Rightarrow> s \<noteq> [])"

text \<open>\<^verbatim>\<open>sep.join(parts)\<close>\<close>

fun py_join :: "string \<Rightarrow> string list \<Rightarrow> string" where
  "py_join sep [] = []"
| "py_join sep [x] = x"
| "py_join sep (x # y # ys) = x @ sep @ py_join sep (y # ys)"

text \<open>
  Reading the error text line by line until a line that is \<^verbatim>\<open>DONE\<close>. At the end of
  input every further line is empty, so the loop goes on for ever.
\<close>

function read_until_done :: "string list \<Rightarrow> world \<Rightarrow> string outcome" where
  "read_until_done lines w =
     (if stdin w = [] then Diverges
      else
        (case readline w of
           (raw, w') \<Rightarrow>
             if strip raw = ''DONE'' then Returns (py_join nl lines) w'
             else read_until_done (lines @ [strip raw]) w'))"
  by pat_completeness auto
termination
  by (relation "measure (\<lambda>(lines, w). length (stdin w))")
     (auto simp: readline_def split: list.splits)

declare read_until_done.simps [simp del]

definition read_error_text :: "args \<Rightarrow> world \<Rightarrow> string outcome" where
  "read_error_text a w =
     (if given (arg_file a) \<and> fs w (the (arg_file a)) \<noteq> None then
        (case open_read (the (fs w (the (arg_file a)))) of
           Inl e \<Rightarrow> Raises e w
         | Inr error_text \<Rightarrow> Returns error_text w)
      else if given (arg_text a) then Returns (the (arg_text a)) w
      else
        read_until_done []
          (py_print ''Enter the error text to analyze (type 'DONE' on a new line when finished):'' w))"

text \<open>
  \<^verbatim>\<open>execute_command\<close> takes the agent's configuration and returns the configuration the
  agent holds afterwards (\<^verbatim>\<open>setup\<close> replaces it).
\<close>

definition execute_command :: "env \<Rightarrow> json \<Rightarrow> args \<Rightarrow> world \<Rightarrow> json outcome" where
  "execute_command E config a w =
     (if arg_command a = Some ''analyze'' then
        (case read_error_text a w of
           Returns error_text w1 \<Rightarrow>
             (let w2 = py_print (nl @ ''Analyzing error...'' @ nl) w1;
                  (analysis, w3) = analyze_error E config error_text w2
              in Returns config (py_print (py_str E analysis) w3))
         | Raises e w1 \<Rightarrow> Raises e w1
         | Diverges \<Rightarrow> Diverges)
      else if arg_command a = Some ''install'' then
        (let (tool_name, w1) =
               (if given (arg_tool a) then (the (arg_tool a), w)
                else
                  (case readline (py_prompt ''Enter the name of the tool to install: '' w) of
                     (raw, w') \<Rightarrow> (strip raw, w')));
             w2 = py_print (nl @ ''Getting installation instructions for '' @ tool_name
                               @ ''...'' @ nl) w1;
             (instructions, w3) = install_tool E config tool_name w2
         in Returns config (py_print (py_str E instructions) w3))
      else if arg_command a = Some ''monitor'' then
        (case start_monitoring config w of
           Returns u w1 \<Rightarrow> Returns config w1
         | Raises e w1 \<Rightarrow> Raises e w1
         | Diverges \<Rightarrow> Diverges)
      else if arg_command a = Some ''setup'' then
        (if given (arg_api_key a) then
           (let w1 = py_print ''Using provided API key from command line'' w;
                api_key = JStr (the (arg_api_key a));
                (model, w2) =
                  (if given (arg_model a) then
                     (JStr (the (arg_model a)),
                      py_print (''Using provided model: '' @ the (arg_model a)) w1)
                   else select_model E api_key w1);
                new_config = make_config api_key model
            in Returns new_config (finish_setup E new_config w2))
         else first_time_setup E w)
      else Returns config (py_print ''Unknown command. Use --help for available commands.'' w))"

text \<open>
  \<^verbatim>\<open>main\<close> from the parsed arguments on: with no command it prints the help text and
  returns; otherwise it constructs the agent, whose initialiser is \<^verbatim>\<open>load_config\<close>, and
  dispatches.
\<close>

definition main :: "env \<Rightarrow> args \<Rightarrow> world \<Rightarrow> unit outcome" where
  "main E a w =
     (if \<not> given (arg_command a) then Returns () (py_prompt (help_text E) w)
      else
        (case load_config E w of
           Returns config w1 \<Rightarrow>
             (case execute_command E config a w1 of
                Returns config' w2 \<Rightarrow> Returns () w2
              | Raises e w2 \<Rightarrow> Raises e w2
              | Diverges \<Rightarrow> Diverges)
         | Raises e w1 \<Rightarrow> Raises e w1
         | Diverges \<Rightarrow> Diverges))"

text \<open>
  The exit status of the process: 0 when \<^verbatim>\<open>main\<close> returns, 1 when an exception escapes
  it, none when it never returns.
\<close>

fun exit_status :: "unit outcome \<Rightarrow> nat option" where
  "exit_status (Returns u w) = Some 0"
| "exit_status (Raises e w) = Some 1"
| "exit_status Diverges = None"

section \<open>Concrete environments and states\<close>

text \<open>
  Small environments and states on which the theorems below are instantiated: a server
  that answers every request alike, a JSON library that knows one document, an empty
  machine and a machine with a configuration file.
\<close>

definition test_env :: "(request \<Rightarrow> exn + response) \<Rightarrow> (string \<Rightarrow> exn + json) \<Rightarrow> env" where
  "test_env srv loads =
     \<lparr>server = (\<lambda>log. srv), json_loads = loads, json_dumps = (\<lambda>v. ''<json>''),
      repr = (\<lambda>v. ''<repr>''), help_text = ''usage: devops_agent.py''\<rparr>"

definition no_json :: "string \<Rightarrow> exn + json" where
  "no_json s = Inl (Exn ''JSONDecodeError'' ''Expecting value'')"

definition status_only :: "int \<Rightarrow> request \<Rightarrow> exn + response" where
  "status_only code r =
     Inr \<lparr>status_code = code, payload = Inl (Exn ''JSONDecodeError'' ''Expecting value'')\<rparr>"


definition unreachable :: "request \<Rightarrow> exn + response" where
  "unreachable r = Inl (Exn ''ConnectionError'' ''Connection reset by peer'')"

definition empty_world :: world where
  "empty_world = \<lparr>stdin = [], stdout = [], net_log = [], fs = Map.empty\<rparr>"




section \<open>Key validation\<close>

text \<open>
  Claim C3. The validation answers true exactly when a request was sent (the key is not
  empty) and the server answered it with status 200; when the request raises, the
  answer is false. The function has no outcome other than a truth value.
\<close>

theorem validate_true_iff_status_200:
  "(fst (validate_openrouter_api_key E api_key w) \<longleftrightarrow>
      truthy api_key \<and>
      (\<exists>response. server E (net_log w) (auth_key_request E api_key) = Inr response
          \<and> status_code response = 200))
   \<and> (\<forall>e. server E (net_log w) (auth_key_request E api_key) = Inl e
          \<longrightarrow> \<not> fst (validate_openrouter_api_key E api_key w))"
  by (auto simp: validate_openrouter_api_key_def http_def split: sum.splits)

theorem validate_true_iff_status_200_witness:
  "fst (validate_openrouter_api_key (test_env (status_only 200) no_json) (JStr ''sk-live'') empty_world)
   \<and> \<not> fst (validate_openrouter_api_key (test_env (status_only 401) no_json) (JStr ''sk-live'') empty_world)
   \<and> \<not> fst (validate_openrouter_api_key (test_env unreachable no_json) (JStr ''sk-live'') empty_world)"
  using validate_true_iff_status_200 [of "test_env (status_only 200) no_json" "JStr ''sk-live''" empty_world]
    validate_true_iff_status_200 [of "test_env (status_only 401) no_json" "JStr ''sk-live''" empty_world]
    validate_true_iff_status_200 [of "test_env unreachable no_json" "JStr ''sk-live''" empty_world]
  by (simp add: test_env_def status_only_def unreachable_def)

text \<open>
  Claim C10. For a key that tests false (the empty string, \<^verbatim>\<open>None\<close>, ...) the
  validation answers false and leaves the state as it was: no request is recorded.
\<close>

theorem validate_empty_key_no_request:
  "\<not> truthy api_key \<Longrightarrow> validate_openrouter_api_key E api_key w = (False, w)"
  by (simp add: validate_openrouter_api_key_def)

theorem validate_empty_key_no_request_witness:
  "\<not> truthy (JStr []) \<and>
   validate_openrouter_api_key (test_env (status_only 200) no_json) (JStr []) empty_world
     = (False, empty_world)"
  using validate_empty_key_no_request [of "JStr []" "test_env (status_only 200) no_json" empty_world]
  by simp

section \<open>The configuration file\<close>




section \<open>Chat requests: what the caller gets\<close>



















section \<open>The model directory\<close>












end
